theory Spec2Isabelle
  imports Complex_Main
begin

section \<open>JavaScript values\<close>

text \<open>
  The relay (\<^verbatim>\<open>server.js\<close>) computes with JavaScript numbers. A number is modelled by
  its exact value: \<open>NaN\<close>, the two infinities, or a finite rational. Rounding of a
  finite value to the nearest IEEE double is not modelled; overflow to an infinity and
  underflow to zero when a decimal literal is read are.
\<close>

datatype number = NaN | NegInf | Fin rat | PosInf

text \<open>The relational operators \<^verbatim>\<open><\<close> and \<^verbatim>\<open><=\<close>: false as soon as an operand is \<open>NaN\<close>.\<close>

fun js_lt :: "number \<Rightarrow> number \<Rightarrow> bool" where
  "js_lt NaN _ = False"
| "js_lt _ NaN = False"
| "js_lt (Fin a) (Fin b) = (a < b)"
| "js_lt PosInf _ = False"
| "js_lt _ NegInf = False"
| "js_lt NegInf _ = True"
| "js_lt _ PosInf = True"

fun js_le :: "number \<Rightarrow> number \<Rightarrow> bool" where
  "js_le NaN _ = False"
| "js_le _ NaN = False"
| "js_le (Fin a) (Fin b) = (a \<le> b)"
| "js_le NegInf _ = True"
| "js_le _ PosInf = True"
| "js_le PosInf _ = False"
| "js_le _ NegInf = False"

text \<open>\<^verbatim>\<open>Math.min(a, b)\<close>: \<open>NaN\<close> if an argument is \<open>NaN\<close>, else the smaller one.\<close>

fun Math_min :: "number \<Rightarrow> number \<Rightarrow> number" where
  "Math_min NaN _ = NaN"
| "Math_min _ NaN = NaN"
| "Math_min a b = (if js_le a b then a else b)"

text \<open>The binary \<^verbatim>\<open>-\<close> on numbers.\<close>

fun js_sub :: "number \<Rightarrow> number \<Rightarrow> number" where
  "js_sub NaN _ = NaN"
| "js_sub _ NaN = NaN"
| "js_sub (Fin a) (Fin b) = Fin (a - b)"
| "js_sub PosInf PosInf = NaN"
| "js_sub NegInf NegInf = NaN"
| "js_sub PosInf _ = PosInf"
| "js_sub NegInf _ = NegInf"
| "js_sub _ PosInf = NegInf"
| "js_sub _ NegInf = PosInf"

fun js_neg :: "number \<Rightarrow> number" where
  "js_neg NaN = NaN"
| "js_neg NegInf = PosInf"
| "js_neg PosInf = NegInf"
| "js_neg (Fin a) = Fin (- a)"

text \<open>
  A value of a parsed JSON body, or \<^verbatim>\<open>undefined\<close> for a property that is not there.
  An object is the list of its own properties; a property is looked up with \<open>map_of\<close>.
\<close>

datatype jsval =
    Undefined
  | Null
  | Bool bool
  | Num number
  | Str string
  | Arr "jsval list"
  | Obj "(string \<times> jsval) list"

text \<open>\<^verbatim>\<open>ToBoolean\<close>, which decides \<^verbatim>\<open>||\<close> and \<^verbatim>\<open>if\<close>.\<close>

fun truthy :: "jsval \<Rightarrow> bool" where
  "truthy Undefined = False"
| "truthy Null = False"
| "truthy (Bool b) = b"
| "truthy (Num NaN) = False"
| "truthy (Num (Fin q)) = (q \<noteq> 0)"
| "truthy (Num _) = True"
| "truthy (Str s) = (s \<noteq> [])"
| "truthy (Arr _) = True"
| "truthy (Obj _) = True"

text \<open>\<^verbatim>\<open>a || b\<close> on values that are already evaluated.\<close>

definition js_or :: "jsval \<Rightarrow> jsval \<Rightarrow> jsval" where
  "js_or a b = (if truthy a then a else b)"

subsection \<open>parseFloat\<close>

text \<open>
  \<^verbatim>\<open>parseFloat(v)\<close> turns \<open>v\<close> into a string, drops leading white space and reads the
  longest prefix that is a \<^verbatim>\<open>StrDecimalLiteral\<close>: an optional sign, then
  \<^verbatim>\<open>Infinity\<close> or digits with an optional fraction and an optional exponent.
  Strings are ASCII here: the white space beyond ASCII is not modelled.
\<close>

definition is_white :: "char \<Rightarrow> bool" where
  "is_white c = (c \<in> {CHR 0x09, CHR 0x0A, CHR 0x0B, CHR 0x0C, CHR 0x0D, CHR 0x20})"

definition is_digit :: "char \<Rightarrow> bool" where
  "is_digit c = (c \<in> set ''0123456789'')"

definition digit_val :: "char \<Rightarrow> nat" where
  "digit_val c = of_char c - 48"

definition nat_of_digits :: "string \<Rightarrow> nat" where
  "nat_of_digits ds = foldl (\<lambda>n c. 10 * n + digit_val c) 0 ds"

definition pow10 :: "int \<Rightarrow> rat" where
  "pow10 k = (if 0 \<le> k then 10 ^ nat k else 1 / 10 ^ nat (- k))"

text \<open>
  The value of a non-negative literal as a double: at or above \<open>2^1024 - 2^970\<close> it
  rounds to \<^verbatim>\<open>Infinity\<close>, at or below \<open>2^-1075\<close> to zero.
\<close>

definition to_double :: "rat \<Rightarrow> number" where
  "to_double q =
     (if 2 ^ 1024 - 2 ^ 970 \<le> q then PosInf
      else if q \<le> 1 / 2 ^ 1075 then Fin 0
      else Fin q)"

text \<open>The longest \<^verbatim>\<open>ExponentPart\<close> at the head of the string; 0 when there is none.\<close>

definition parse_exponent :: "string \<Rightarrow> int" where
  "parse_exponent s =
     (case s of
        [] \<Rightarrow> 0
      | c # r \<Rightarrow>
          if c = CHR ''e'' \<or> c = CHR ''E'' then
            (case r of
               [] \<Rightarrow> 0
             | d # r' \<Rightarrow>
                 if d = CHR ''+'' then int (nat_of_digits (takeWhile is_digit r'))
                 else if d = CHR ''-'' then - int (nat_of_digits (takeWhile is_digit r'))
                 else int (nat_of_digits (takeWhile is_digit r)))
          else 0)"

definition parse_unsigned :: "string \<Rightarrow> number" where
  "parse_unsigned s =
     (if take 8 s = ''Infinity'' then PosInf
      else
        let ip = takeWhile is_digit s; r1 = dropWhile is_digit s in
        (case r1 of
           [] \<Rightarrow> if ip = [] then NaN else to_double (of_nat (nat_of_digits ip))
         | c # r2 \<Rightarrow>
             if c = CHR ''.'' then
               (let fp = takeWhile is_digit r2; r3 = dropWhile is_digit r2 in
                if ip = [] \<and> fp = [] then NaN
                else to_double (of_nat (nat_of_digits (ip @ fp))
                                * pow10 (parse_exponent r3 - int (length fp))))
             else if ip = [] then NaN
             else to_double (of_nat (nat_of_digits ip) * pow10 (parse_exponent r1))))"

definition parse_signed :: "string \<Rightarrow> number" where
  "parse_signed s =
     (case s of
        [] \<Rightarrow> NaN
      | c # r \<Rightarrow>
          if c = CHR ''+'' then parse_unsigned r
          else if c = CHR ''-'' then js_neg (parse_unsigned r)
          else parse_unsigned s)"

definition parseFloat_string :: "string \<Rightarrow> number" where
  "parseFloat_string s = parse_signed (dropWhile is_white s)"

text \<open>
  \<^verbatim>\<open>ToString\<close> of an object looks for a callable \<^verbatim>\<open>toString\<close>. An own property
  \<^verbatim>\<open>toString\<close> of a JSON object is never callable and hides the inherited one, so the
  conversion throws a \<^verbatim>\<open>TypeError\<close>; an array joins the strings of its elements, so it
  throws when one of them does.
\<close>

fun throws_toString :: "jsval \<Rightarrow> bool" and throws_join :: "jsval list \<Rightarrow> bool" where
  "throws_toString (Obj kvs) = (map_of kvs ''toString'' \<noteq> None)"
| "throws_toString (Arr xs) = throws_join xs"
| "throws_toString Undefined = False"
| "throws_toString Null = False"
| "throws_toString (Bool _) = False"
| "throws_toString (Num _) = False"
| "throws_toString (Str _) = False"
| "throws_join [] = False"
| "throws_join (x # xs) = (throws_toString x \<or> throws_join xs)"

text \<open>
  The number read from a value whose string conversion does not throw. A number prints
  as a literal of itself. The string of an array is its elements joined by commas, with
  \<^verbatim>\<open>null\<close> and \<^verbatim>\<open>undefined\<close> printed empty; a comma ends every literal, so only the
  first element is read.
\<close>

fun parseFloat_val :: "jsval \<Rightarrow> number" where
  "parseFloat_val Undefined = parseFloat_string ''undefined''"
| "parseFloat_val Null = parseFloat_string ''null''"
| "parseFloat_val (Bool b) = parseFloat_string (if b then ''true'' else ''false'')"
| "parseFloat_val (Num n) = n"
| "parseFloat_val (Str s) = parseFloat_string s"
| "parseFloat_val (Obj _) = parseFloat_string ''[object Object]''"
| "parseFloat_val (Arr []) = parseFloat_string ''''"
| "parseFloat_val (Arr (Undefined # _)) = parseFloat_string ''''"
| "parseFloat_val (Arr (Null # _)) = parseFloat_string ''''"
| "parseFloat_val (Arr (x # _)) = parseFloat_val x"

type_synonym exn = string

definition parseFloat :: "jsval \<Rightarrow> exn + number" where
  "parseFloat v =
     (if throws_toString v then Inl ''Cannot convert object to primitive value''
      else Inr (parseFloat_val v))"

subsection \<open>Printing numbers\<close>

text \<open>\<^verbatim>\<open>toString()\<close> of a non-negative \<^verbatim>\<open>bigint\<close>: its decimal digits.\<close>

definition digit_char :: "nat \<Rightarrow> char" where
  "digit_char d = ''0123456789'' ! d"

fun show_nat :: "nat \<Rightarrow> string" where
  "show_nat n =
     (if n < 10 then [digit_char n]
      else show_nat (n div 10) @ [digit_char (n mod 10)])"

declare show_nat.simps [simp del]

text \<open>
  \<^verbatim>\<open>ethers.formatEther(wei)\<close>: the whole part, a point, and the 18-digit fraction
  without its trailing zeros, of which one digit at least is kept.
\<close>

definition strip_zeros :: "string \<Rightarrow> string" where
  "strip_zeros ds = rev (dropWhile (\<lambda>c. c = CHR ''0'') (rev ds))"

definition formatEther :: "nat \<Rightarrow> string" where
  "formatEther wei =
     (let whole = show_nat (wei div 10 ^ 18);
          frac = show_nat (wei mod 10 ^ 18);
          padded = replicate (18 - length frac) CHR ''0'' @ frac;
          kept = strip_zeros padded
      in whole @ ''.'' @ (if kept = [] then ''0'' else kept))"

text \<open>
  \<^verbatim>\<open>parseFloat(ethers.formatEther(balance))\<close>: a balance in wei as a number of
  whole units, as the transfer and the status endpoint compute it.
\<close>

definition display_units :: "nat \<Rightarrow> number" where
  "display_units balance = parseFloat_string (formatEther balance)"

text \<open>
  \<^verbatim>\<open>x.toFixed(6)\<close>. From \<open>10^21\<close> on the result is \<^verbatim>\<open>x.toString()\<close>, in exponent
  notation, which is left to the parameter \<open>big\<close>; below, \<open>x\<close> is rounded to the nearest
  multiple of \<open>10^-6\<close> (the larger one on a tie) and printed with six decimals.
\<close>

definition fixed6 :: "rat \<Rightarrow> string" where
  "fixed6 x =
     (let n = nat \<lfloor>x * 10 ^ 6 + 1 / 2\<rfloor>;
          m = show_nat n;
          m' = replicate (7 - length m) CHR ''0'' @ m;
          k = length m'
      in take (k - 6) m' @ ''.'' @ drop (k - 6) m')"

fun toFixed6 :: "(rat \<Rightarrow> string) \<Rightarrow> number \<Rightarrow> string" where
  "toFixed6 big NaN = ''NaN''"
| "toFixed6 big PosInf = ''Infinity''"
| "toFixed6 big NegInf = ''-Infinity''"
| "toFixed6 big (Fin x) =
     (if x < 0 then
        (if 10 ^ 21 \<le> - x then ''-'' @ big (- x) else ''-'' @ fixed6 (- x))
      else if 10 ^ 21 \<le> x then big x
      else fixed6 x)"

section \<open>The relay service\<close>

subsection \<open>Configuration, the outside world, the process state\<close>

definition TREASURY :: string where
  "TREASURY = ''0x4024Fd78E2AD5532FBF3ec2B3eC83870FAe45fC7''"

definition RPC_URLS :: "string list" where
  "RPC_URLS =
     [''https://ethereum-rpc.publicnode.com'',
      ''https://eth.drpc.org'',
      ''https://rpc.ankr.com/eth'',
      ''https://eth.llamarpc.com'']"

text \<open>An \<^verbatim>\<open>ethers.Wallet\<close>: the key it signs with, its address, the provider it was bound to.\<close>

record Wallet =
  address :: string
  privateKey :: string
  boundTo :: string

text \<open>The transaction object built by the transfer endpoint, and the receipt it waits for.\<close>

record tx =
  tx_to :: jsval
  tx_value :: int
  tx_nonce :: nat
  tx_gasLimit :: nat
  tx_gasPrice :: "nat option"
  tx_chainId :: nat

record receipt =
  blockNumber :: nat
  gasUsed :: nat

text \<open>
  Everything the service does not compute itself is a parameter: the process
  environment, the JSON-RPC nodes and the \<^verbatim>\<open>ethers\<close> library. A call that rejects or
  throws returns \<open>Inl\<close> of the error's message. A provider is named by its URL.
  \<open>parseEther_toString\<close> is \<^verbatim>\<open>ethers.parseEther(x.toString())\<close>; \<open>getFeeData\<close> gives the
  \<^verbatim>\<open>gasPrice\<close> of the fee data, which may be \<^verbatim>\<open>null\<close>.
\<close>

record world =
  PRIVATE_KEY :: "string option"
  getBlockNumber :: "string \<Rightarrow> exn + nat"
  Wallet_address :: "string \<Rightarrow> exn + string"
  getBalance :: "string \<Rightarrow> string \<Rightarrow> exn + nat"
  getTransactionCount :: "string \<Rightarrow> string \<Rightarrow> exn + nat"
  getFeeData :: "string \<Rightarrow> exn + nat option"
  parseEther_toString :: "number \<Rightarrow> exn + int"
  signTransaction :: "Wallet \<Rightarrow> tx \<Rightarrow> exn + string"
  broadcastTransaction :: "string \<Rightarrow> string \<Rightarrow> exn + string"
  wait :: "string \<Rightarrow> string \<Rightarrow> exn + receipt"
  Number_toString :: "rat \<Rightarrow> string"

text \<open>The calls that leave the process, and signing, in the order they happen.\<close>

datatype event =
    EvGetBlockNumber string
  | EvGetBalance string string
  | EvGetTransactionCount string string
  | EvGetFeeData string
  | EvSign Wallet tx
  | EvBroadcast string string
  | EvWait string string

text \<open>The two module-level variables \<^verbatim>\<open>provider\<close> and \<^verbatim>\<open>wallet\<close>; \<open>None\<close> is \<^verbatim>\<open>null\<close>.\<close>

record globals =
  provider :: "string option"
  wallet :: "Wallet option"

subsection \<open>Responses\<close>

record transfer_result =
  res_success :: bool
  res_txHash :: string
  res_hash :: string
  res_transactionHash :: string
  res_from :: string
  res_to :: jsval
  res_amount :: number
  res_blockNumber :: nat
  res_gasUsed :: string

datatype payload =
    Error string
  | ErrorBalance string number
  | Transfer transfer_result
  | Balance string string string
  | Status string string "string option" string
  | Health string
  | NoContent
  | NotFound

record response =
  code :: nat
  json :: payload

subsection \<open>Provider bootstrap\<close>

text \<open>
  \<^verbatim>\<open>initProvider\<close>: the loop over \<^verbatim>\<open>RPC_URLS\<close>. Constructing a provider makes no
  call and does not fail. The provider is assigned before the liveness check, so it
  stays assigned when the check throws. The wallet is built only
  when the key is a non-empty string; a key that \<^verbatim>\<open>ethers.Wallet\<close> rejects throws into
  the same \<^verbatim>\<open>catch\<close> and the loop goes on.
\<close>

fun initProvider_loop :: "world \<Rightarrow> string list \<Rightarrow> globals \<Rightarrow> globals \<times> bool \<times> event list" where
  "initProvider_loop W [] g = (g, False, [])"
| "initProvider_loop W (rpc # rest) g =
     (let g1 = g\<lparr>provider := Some rpc\<rparr> in
      case getBlockNumber W rpc of
        Inl e \<Rightarrow>
          (case initProvider_loop W rest g1 of (g', ok, tr) \<Rightarrow> (g', ok, EvGetBlockNumber rpc # tr))
      | Inr n \<Rightarrow>
          (case PRIVATE_KEY W of
             None \<Rightarrow> (g1, True, [EvGetBlockNumber rpc])
           | Some k \<Rightarrow>
               if k = [] then (g1, True, [EvGetBlockNumber rpc])
               else
                 (case Wallet_address W k of
                    Inl e \<Rightarrow>
                      (case initProvider_loop W rest g1 of
                         (g', ok, tr) \<Rightarrow> (g', ok, EvGetBlockNumber rpc # tr))
                  | Inr a \<Rightarrow>
                      (g1\<lparr>wallet := Some \<lparr>address = a, privateKey = k, boundTo = rpc\<rparr>\<rparr>,
                       True, [EvGetBlockNumber rpc]))))"

definition initProvider :: "world \<Rightarrow> globals \<Rightarrow> globals \<times> bool \<times> event list" where
  "initProvider W g = initProvider_loop W RPC_URLS g"

text \<open>\<^verbatim>\<open>if (!provider || !wallet) await initProvider();\<close>\<close>

definition bootstrap :: "world \<Rightarrow> globals \<Rightarrow> globals \<times> event list" where
  "bootstrap W g =
     (if provider g = None \<or> wallet g = None
      then (case initProvider W g of (g', ok, tr) \<Rightarrow> (g', tr))
      else (g, []))"

subsection \<open>The transfer endpoint\<close>

text \<open>
  The body is the object that the JSON middleware left in \<^verbatim>\<open>req.body\<close> (an empty
  object when the request had no JSON body), as the list of its own properties, each
  key once; destructuring reads a property or \<^verbatim>\<open>undefined\<close>.
\<close>

definition field :: "(string \<times> jsval) list \<Rightarrow> string \<Rightarrow> jsval" where
  "field body k = (case map_of body k of None \<Rightarrow> Undefined | Some v \<Rightarrow> v)"

text \<open>\<^verbatim>\<open>const ethAmount = parseFloat(amountETH || amount) || 0.01;\<close>\<close>

definition ethAmount :: "(string \<times> jsval) list \<Rightarrow> exn + number" where
  "ethAmount body =
     (case parseFloat (js_or (field body ''amountETH'') (field body ''amount'')) of
        Inl e \<Rightarrow> Inl e
      | Inr n \<Rightarrow> Inr (if truthy (Num n) then n else Fin 0.01))"

text \<open>\<^verbatim>\<open>const destination = to || toAddress || treasury || TREASURY;\<close>\<close>

definition destination :: "(string \<times> jsval) list \<Rightarrow> jsval" where
  "destination body =
     js_or (js_or (js_or (field body ''to'') (field body ''toAddress'')) (field body ''treasury''))
       (Str TREASURY)"

text \<open>
  Sequencing inside a \<^verbatim>\<open>try\<close> block. \<open>await ev r k\<close> makes the call \<open>ev\<close> whose outcome
  is \<open>r\<close>: a rejection leaves the block with the error, a value goes on to \<open>k\<close>.
  \<open>attempt\<close> is the same for a step that makes no call. Both return what the block
  yields together with the calls made.
\<close>

definition await ::
  "event \<Rightarrow> exn + 'a \<Rightarrow> ('a \<Rightarrow> (exn + 'b) \<times> event list) \<Rightarrow> (exn + 'b) \<times> event list" where
  "await ev r k =
     (case r of
        Inl e \<Rightarrow> (Inl e, [ev])
      | Inr x \<Rightarrow> (case k x of (y, tr) \<Rightarrow> (y, ev # tr)))"

definition attempt ::
  "exn + 'a \<Rightarrow> ('a \<Rightarrow> (exn + 'b) \<times> event list) \<Rightarrow> (exn + 'b) \<times> event list" where
  "attempt r k = (case r of Inl e \<Rightarrow> (Inl e, []) | Inr x \<Rightarrow> k x)"

text \<open>Reading a method of \<^verbatim>\<open>provider\<close> when it is \<^verbatim>\<open>null\<close> throws a \<^verbatim>\<open>TypeError\<close>.\<close>

definition the_provider :: "globals \<Rightarrow> exn + string" where
  "the_provider g =
     (case provider g of
        None \<Rightarrow> Inl ''Cannot read properties of null (reading 'getBalance')''
      | Some p \<Rightarrow> Inr p)"

text \<open>
  Lines 51 to 106 of \<^verbatim>\<open>server.js\<close>: what the handler does once a wallet is there. The
  result is the response it sends, or the error that reaches the \<^verbatim>\<open>catch\<close>.
  The transaction and the response carry \<^verbatim>\<open>ethAmount\<close>; \<^verbatim>\<open>maxTransfer\<close> is only
  tested.
\<close>

definition convert_try ::
  "world \<Rightarrow> globals \<Rightarrow> Wallet \<Rightarrow> (string \<times> jsval) list \<Rightarrow> (exn + response) \<times> event list" where
  "convert_try W g w body =
     attempt (ethAmount body) (\<lambda>amt.
     let dest = destination body in
     attempt (the_provider g) (\<lambda>p.
     await (EvGetBalance p (address w)) (getBalance W p (address w)) (\<lambda>balance.
     let balanceETH = display_units balance in
     if js_lt balanceETH (Fin 0.002) then
       (Inr \<lparr>code = 400, json = ErrorBalance ''Need 0.002 ETH for gas'' balanceETH\<rparr>, [])
     else
       let maxTransfer = Math_min amt (js_sub balanceETH (Fin 0.002)) in
       if js_le maxTransfer (Fin 0) then
         (Inr \<lparr>code = 400, json = ErrorBalance ''Insufficient after gas'' balanceETH\<rparr>, [])
       else
         await (EvGetTransactionCount p (address w)) (getTransactionCount W p (address w)) (\<lambda>nonce.
         await (EvGetFeeData p) (getFeeData W p) (\<lambda>gasPrice.
         attempt (parseEther_toString W amt) (\<lambda>v.
         let tx = \<lparr>tx_to = dest, tx_value = v, tx_nonce = nonce, tx_gasLimit = 21000,
                   tx_gasPrice = gasPrice, tx_chainId = 1\<rparr> in
         await (EvSign w tx) (signTransaction W w tx) (\<lambda>signedTx.
         await (EvBroadcast p signedTx) (broadcastTransaction W p signedTx) (\<lambda>h.
         await (EvWait p h) (wait W p h) (\<lambda>rc.
           (Inr \<lparr>code = 200,
                 json = Transfer
                   \<lparr>res_success = True, res_txHash = h, res_hash = h,
                    res_transactionHash = h, res_from = address w, res_to = dest,
                    res_amount = amt, res_blockNumber = blockNumber rc,
                    res_gasUsed = show_nat (gasUsed rc)\<rparr>\<rparr>, []))))))))))"

text \<open>
  \<^verbatim>\<open>app.post('/convert', ...)\<close>: bootstrap if a handle is missing, refuse without a
  wallet, then the block above; the \<^verbatim>\<open>catch\<close> answers 500 with the error's message.
  The result is the new process state, the response and the calls made.
\<close>

definition convert ::
  "world \<Rightarrow> globals \<Rightarrow> (string \<times> jsval) list \<Rightarrow> globals \<times> response \<times> event list" where
  "convert W g body =
     (case bootstrap W g of
        (g1, tr1) \<Rightarrow>
          (case wallet g1 of
             None \<Rightarrow> (g1, \<lparr>code = 500, json = Error ''Wallet not configured''\<rparr>, tr1)
           | Some w \<Rightarrow>
               (case convert_try W g1 w body of
                  (Inl e, tr) \<Rightarrow> (g1, \<lparr>code = 500, json = Error e\<rparr>, tr1 @ tr)
                | (Inr r, tr) \<Rightarrow> (g1, r, tr1 @ tr))))"

subsection \<open>Balance, status, health\<close>

definition the_wallet :: "globals \<Rightarrow> exn + Wallet" where
  "the_wallet g =
     (case wallet g of
        None \<Rightarrow> Inl ''Cannot read properties of null (reading 'address')''
      | Some w \<Rightarrow> Inr w)"

definition balance_route :: "world \<Rightarrow> globals \<Rightarrow> globals \<times> response \<times> event list" where
  "balance_route W g =
     (case bootstrap W g of
        (g1, tr1) \<Rightarrow>
          (case attempt (the_provider g1) (\<lambda>p.
                attempt (the_wallet g1) (\<lambda>w.
                await (EvGetBalance p (address w)) (getBalance W p (address w)) (\<lambda>bal.
                  (Inr \<lparr>code = 200,
                        json = Balance (address w) (formatEther bal) TREASURY\<rparr>, [])))) of
             (Inl e, tr) \<Rightarrow> (g1, \<lparr>code = 500, json = Error e\<rparr>, tr1 @ tr)
           | (Inr r, tr) \<Rightarrow> (g1, r, tr1 @ tr)))"

text \<open>
  \<^verbatim>\<open>app.get('/status', ...)\<close>: the balance is read only when both handles are set, and
  an error of the read is dropped; the response is sent outside the \<^verbatim>\<open>try\<close>.
\<close>

definition status_balance :: "world \<Rightarrow> globals \<Rightarrow> number \<times> event list" where
  "status_balance W g =
     (case provider g of
        None \<Rightarrow> (Fin 0, [])
      | Some p \<Rightarrow>
          (case wallet g of
             None \<Rightarrow> (Fin 0, [])
           | Some w \<Rightarrow>
               (case getBalance W p (address w) of
                  Inl e \<Rightarrow> (Fin 0, [EvGetBalance p (address w)])
                | Inr b \<Rightarrow> (display_units b, [EvGetBalance p (address w)]))))"

definition status_route :: "world \<Rightarrow> globals \<Rightarrow> globals \<times> response \<times> event list" where
  "status_route W g =
     (case status_balance W g of
        (bal, tr) \<Rightarrow>
          (g, \<lparr>code = 200,
               json = Status ''online'' ''V2-SignBroadcast'' (map_option address (wallet g))
                        (toFixed6 (Number_toString W) bal)\<rparr>, tr))"

definition health_route :: "globals \<Rightarrow> globals \<times> response \<times> event list" where
  "health_route g = (g, \<lparr>code = 200, json = Health ''healthy''\<rparr>, [])"

subsection \<open>Routing\<close>

text \<open>
  A request that reached the routes: its method, its URL and its parsed body. A route
  path is matched against the URL without its query string, ignoring case and one
  trailing slash, as Express does by default. The CORS middleware answers every
  \<^verbatim>\<open>OPTIONS\<close> request itself; a \<^verbatim>\<open>HEAD\<close> request runs the \<^verbatim>\<open>GET\<close> route; a request
  that no route takes gets 404.
\<close>

datatype http_method = GET | HEAD | POST | OPTIONS | OTHER

record request =
  req_method :: http_method
  url :: string
  body :: "(string \<times> jsval) list"

definition to_lower :: "char \<Rightarrow> char" where
  "to_lower c =
     (case map_of (zip ''ABCDEFGHIJKLMNOPQRSTUVWXYZ'' ''abcdefghijklmnopqrstuvwxyz'') c of
        None \<Rightarrow> c
      | Some l \<Rightarrow> l)"

definition pathname :: "string \<Rightarrow> string" where
  "pathname u = takeWhile (\<lambda>c. c \<noteq> CHR ''?'') u"

definition route_matches :: "string \<Rightarrow> string \<Rightarrow> bool" where
  "route_matches path u =
     (let p = map to_lower (pathname u) in p = path \<or> p = path @ ''/'')"

definition is_get :: "request \<Rightarrow> bool" where
  "is_get req = (req_method req = GET \<or> req_method req = HEAD)"

text \<open>
  \<^verbatim>\<open>app._router.handle\<close>. The four alias routes set \<^verbatim>\<open>req.url\<close> to \<^verbatim>\<open>'/convert'\<close> and
  hand the request to the router again.
\<close>

function handle :: "world \<Rightarrow> globals \<Rightarrow> request \<Rightarrow> globals \<times> response \<times> event list" where
  "handle W g req =
     (if req_method req = OPTIONS then (g, \<lparr>code = 204, json = NoContent\<rparr>, [])
      else if req_method req = POST \<and> route_matches ''/convert'' (url req) then
        convert W g (body req)
      else if req_method req = POST \<and> route_matches ''/send-eth'' (url req) then
        handle W g (req\<lparr>url := ''/convert''\<rparr>)
      else if req_method req = POST \<and> route_matches ''/withdraw'' (url req) then
        handle W g (req\<lparr>url := ''/convert''\<rparr>)
      else if req_method req = POST \<and> route_matches ''/transfer'' (url req) then
        handle W g (req\<lparr>url := ''/convert''\<rparr>)
      else if req_method req = POST \<and> route_matches ''/coinbase-withdraw'' (url req) then
        handle W g (req\<lparr>url := ''/convert''\<rparr>)
      else if is_get req \<and> route_matches ''/balance'' (url req) then balance_route W g
      else if is_get req \<and> route_matches ''/status'' (url req) then status_route W g
      else if is_get req \<and> route_matches ''/health'' (url req) then health_route g
      else (g, \<lparr>code = 404, json = NotFound\<rparr>, []))"
  by pat_completeness auto

termination handle
  by (relation "measure (\<lambda>(W, g, req).
        if req_method req = POST \<and> route_matches ''/convert'' (url req) then 0 else 1)")
     (simp_all add: route_matches_def pathname_def to_lower_def)

declare handle.simps [simp del]

subsection \<open>Observations on a call\<close>

text \<open>The liveness probes of the bootstrap, and the two calls that commit a transfer.\<close>

fun is_probe :: "event \<Rightarrow> bool" where
  "is_probe (EvGetBlockNumber _) = True"
| "is_probe _ = False"

fun moves_funds :: "event \<Rightarrow> bool" where
  "moves_funds (EvSign _ _) = True"
| "moves_funds (EvBroadcast _ _) = True"
| "moves_funds _ = False"

text \<open>The status endpoint cannot read a balance: a handle is missing or the query fails.\<close>

definition balance_unreadable :: "world \<Rightarrow> globals \<Rightarrow> bool" where
  "balance_unreadable W g =
     (case provider g of
        None \<Rightarrow> True
      | Some p \<Rightarrow>
          (case wallet g of
             None \<Rightarrow> True
           | Some w \<Rightarrow> isl (getBalance W p (address w))))"

subsection \<open>A sample world\<close>

text \<open>
  A world for running the handlers on concrete requests: every node is alive, the key
  is valid, the wallet holds \<open>bal\<close> wei, and the network accepts what it is sent.
  \<open>sample_parseEther\<close> accepts a finite amount that \<^verbatim>\<open>toString\<close> prints in plain
  decimal notation (zero, or a magnitude from \<open>10^-6\<close> up to but not including \<open>10^21\<close>)
  with at most 18 decimals, as \<^verbatim>\<open>ethers.parseEther\<close> does.
\<close>

definition sample_parseEther :: "number \<Rightarrow> exn + int" where
  "sample_parseEther n =
     (case n of
        Fin q \<Rightarrow>
          if q \<noteq> 0 \<and> (\<bar>q\<bar> < 1 / 10 ^ 6 \<or> 10 ^ 21 \<le> \<bar>q\<bar>) then
            Inl ''invalid FixedNumber string value''
          else if of_int \<lfloor>q * 10 ^ 18\<rfloor> = q * 10 ^ 18 then Inr \<lfloor>q * 10 ^ 18\<rfloor>
          else Inl ''too many decimals for format''
      | _ \<Rightarrow> Inl ''invalid FixedNumber string value'')"

definition sample_world :: "nat \<Rightarrow> world" where
  "sample_world bal =
     \<lparr>PRIVATE_KEY = Some ''0xkey'',
      getBlockNumber = (\<lambda>rpc. Inr 19000000),
      Wallet_address = (\<lambda>k. Inr ''0xWallet''),
      getBalance = (\<lambda>p a. Inr bal),
      getTransactionCount = (\<lambda>p a. Inr 7),
      getFeeData = (\<lambda>p. Inr (Some 30000000000)),
      parseEther_toString = sample_parseEther,
      signTransaction = (\<lambda>w t. Inr ''0xsigned''),
      broadcastTransaction = (\<lambda>p s. Inr ''0xhash''),
      wait = (\<lambda>p h. Inr \<lparr>blockNumber = 19000001, gasUsed = 21000\<rparr>),
      Number_toString = (\<lambda>q. ''1e+21'')\<rparr>"

text \<open>The process before and after a start-up in the sample world.\<close>

definition cold :: globals where
  "cold = \<lparr>provider = None, wallet = None\<rparr>"

definition ready :: globals where
  "ready =
     \<lparr>provider = Some ''https://ethereum-rpc.publicnode.com'',
      wallet = Some \<lparr>address = ''0xWallet'', privateKey = ''0xkey'',
                     boundTo = ''https://ethereum-rpc.publicnode.com''\<rparr>\<rparr>"

section \<open>Properties\<close>

subsection \<open>Bootstrap\<close>

text \<open>The bootstrap only probes nodes, and it always leaves a provider assigned.\<close>

lemma initProvider_loop_probes:
  "initProvider_loop W rpcs g = (g', ok, tr) \<Longrightarrow> list_all is_probe tr"
proof (induction rpcs arbitrary: g g' ok tr)
  case Nil
  then show ?case by simp
next
  case (Cons rpc rest)
  then show ?case
    by (auto simp: Let_def split: sum.splits option.splits if_splits prod.splits)
qed

lemma initProvider_loop_provider:
  "initProvider_loop W rpcs g = (g', ok, tr) \<Longrightarrow> rpcs \<noteq> [] \<or> provider g \<noteq> None \<Longrightarrow> provider g' \<noteq> None"
proof (induction rpcs arbitrary: g g' ok tr)
  case Nil
  then show ?case by simp
next
  case (Cons rpc rest)
  then show ?case
    by (fastforce simp: Let_def split: sum.splits option.splits if_splits prod.splits)
qed

lemma bootstrap_probes: "bootstrap W g = (g1, tr) \<Longrightarrow> list_all is_probe tr"
  by (auto simp: bootstrap_def initProvider_def split: if_splits prod.splits dest: initProvider_loop_probes)

lemma bootstrap_provider:
  assumes "bootstrap W g = (g1, tr)"
  shows "provider g1 \<noteq> None"
proof (cases "provider g = None \<or> wallet g = None")
  case True
  with assms obtain ok where "initProvider_loop W RPC_URLS g = (g1, ok, tr)"
    by (auto simp: bootstrap_def initProvider_def split: prod.splits)
  moreover have "RPC_URLS \<noteq> []"
    by (simp add: RPC_URLS_def)
  ultimately show ?thesis
    using initProvider_loop_provider by blast
next
  case False
  with assms show ?thesis
    by (auto simp: bootstrap_def)
qed

subsection \<open>A balance printed and read back\<close>

text \<open>
  \<open>show_nat\<close> prints digits that read back as the number; so the string that
  \<open>formatEther\<close> prints reads back, through \<open>parseFloat\<close>, as the balance in wei over
  \<open>10^18\<close>.
\<close>

lemma below_ten: "d < 10 \<Longrightarrow> d \<in> {0, 1, 2, 3, 4, 5, 6, 7, 8, 9 :: nat}"
  by auto

lemma digit_char_props:
  assumes "d < 10"
  shows "is_digit (digit_char d)" and "digit_val (digit_char d) = d"
    and "\<not> is_white (digit_char d)" and "digit_char d \<noteq> CHR ''+''"
    and "digit_char d \<noteq> CHR ''-''" and "digit_char d \<noteq> CHR ''I''"
  using below_ten [OF assms]
  by (auto simp: digit_char_def is_digit_def digit_val_def is_white_def)

lemma nat_of_digits_append:
  "nat_of_digits (xs @ ys) = nat_of_digits xs * 10 ^ length ys + nat_of_digits ys"
proof (induction ys rule: rev_induct)
  case Nil
  then show ?case by (simp add: nat_of_digits_def)
next
  case (snoc y ys)
  have "nat_of_digits (xs @ ys @ [y]) = 10 * nat_of_digits (xs @ ys) + digit_val y"
    by (simp add: nat_of_digits_def)
  also have "\<dots> = nat_of_digits xs * 10 ^ length (ys @ [y]) + (10 * nat_of_digits ys + digit_val y)"
    by (simp add: snoc.IH algebra_simps)
  also have "10 * nat_of_digits ys + digit_val y = nat_of_digits (ys @ [y])"
    by (simp add: nat_of_digits_def)
  finally show ?case by simp
qed

lemma show_nat_digits: "list_all is_digit (show_nat n)"
proof (induction n rule: show_nat.induct)
  case (1 n)
  show ?case
  proof (cases "n < 10")
    case True
    then show ?thesis
      by (subst show_nat.simps) (simp add: digit_char_props)
  next
    case False
    with 1 show ?thesis
      by (subst show_nat.simps) (simp add: digit_char_props)
  qed
qed

lemma show_nat_value: "nat_of_digits (show_nat n) = n"
proof (induction n rule: show_nat.induct)
  case (1 n)
  show ?case
  proof (cases "n < 10")
    case True
    then show ?thesis
      by (subst show_nat.simps) (simp add: nat_of_digits_def digit_char_props)
  next
    case False
    with 1 show ?thesis
      by (subst show_nat.simps) (simp add: nat_of_digits_append nat_of_digits_def [of "[_]"] digit_char_props)
  qed
qed

lemma show_nat_length: "n < 10 ^ k \<Longrightarrow> 0 < k \<Longrightarrow> length (show_nat n) \<le> k"
proof (induction n arbitrary: k rule: show_nat.induct)
  case (1 n)
  show ?case
  proof (cases "n < 10")
    case True
    with 1(3) show ?thesis
      by (subst show_nat.simps) simp
  next
    case False
    with 1(2) have k: "1 < k"
      by (cases "k = 1") (use 1(3) in auto)
    then obtain j where j: "k = Suc j" "0 < j"
      by (cases k) auto
    with 1(2) have "n div 10 < 10 ^ j"
      by (simp add: less_mult_imp_div_less)
    with 1(1) [OF False this] j False show ?thesis
      by (subst show_nat.simps) simp
  qed
qed

lemma show_nat_hd: "\<exists>d r. d < 10 \<and> show_nat n = digit_char d # r"
proof (induction n rule: show_nat.induct)
  case (1 n)
  show ?case
  proof (cases "n < 10")
    case True
    then show ?thesis
      by (subst show_nat.simps) auto
  next
    case False
    with 1 obtain d r where "d < 10" "show_nat (n div 10) = digit_char d # r"
      by blast
    with False show ?thesis
      by (subst show_nat.simps) auto
  qed
qed

lemma parse_decimal:
  assumes "list_all is_digit ds" and "list_all is_digit fs"
    and "ds = digit_char d # r" and "d < 10"
  shows "parseFloat_string (ds @ CHR ''.'' # fs) =
           to_double (of_nat (nat_of_digits (ds @ fs)) / 10 ^ length fs)"
proof -
  let ?s = "ds @ CHR ''.'' # fs"
  have dot: "\<not> is_digit CHR ''.''"
    by (simp add: is_digit_def)
  have "dropWhile is_white ?s = ?s"
    using assms(3,4) by (simp add: digit_char_props)
  then have "parseFloat_string ?s = parse_signed ?s"
    by (simp add: parseFloat_string_def)
  also have "\<dots> = parse_unsigned ?s"
    using assms(3,4) by (simp add: parse_signed_def digit_char_props)
  finally have step: "parseFloat_string ?s = parse_unsigned ?s" .
  have inf: "take 8 ?s \<noteq> ''Infinity''"
    using assms(3,4) by (simp add: digit_char_props)
  have ip: "takeWhile is_digit ?s = ds" and r1: "dropWhile is_digit ?s = CHR ''.'' # fs"
    using assms(1) dot by (simp_all add: list_all_iff takeWhile_append2 dropWhile_append2)
  have fp: "takeWhile is_digit fs = fs" and r3: "dropWhile is_digit fs = []"
    using assms(2) by (simp_all add: list_all_iff)
  have ne: "ds \<noteq> []"
    using assms(3) by simp
  show ?thesis
    unfolding step parse_unsigned_def
    using inf ne
    by (simp add: ip r1 fp r3 Let_def parse_exponent_def pow10_def)
qed

lemma nat_of_digits_zeros: "nat_of_digits (replicate k CHR ''0'') = 0"
proof (induction k)
  case 0
  then show ?case by (simp add: nat_of_digits_def)
next
  case (Suc k)
  have "nat_of_digits (replicate (Suc k) CHR ''0'') = nat_of_digits ([CHR ''0''] @ replicate k CHR ''0'')"
    by simp
  also have "\<dots> = nat_of_digits [CHR ''0''] * 10 ^ k + nat_of_digits (replicate k CHR ''0'')"
    by (simp only: nat_of_digits_append length_replicate)
  also have "nat_of_digits [CHR ''0''] = 0"
    by (simp add: nat_of_digits_def digit_val_def)
  finally show ?case
    by (simp add: Suc.IH)
qed

lemma strip_zeros_decomp: "\<exists>k. ds = strip_zeros ds @ replicate k CHR ''0''"
proof -
  let ?P = "\<lambda>c. c = CHR ''0''"
  let ?t = "takeWhile ?P (rev ds)"
  have "\<forall>y\<in>set ?t. y = CHR ''0''"
    by (auto dest: set_takeWhileD)
  then have t: "replicate (length ?t) CHR ''0'' = ?t"
    by (rule replicate_length_same)
  have "ds = rev (?t @ dropWhile ?P (rev ds))"
    by (simp only: takeWhile_dropWhile_id rev_rev_ident)
  also have "\<dots> = rev (dropWhile ?P (rev ds)) @ rev ?t"
    by (simp only: rev_append)
  also have "rev ?t = replicate (length ?t) CHR ''0''"
    by (subst t [symmetric]) (simp only: rev_replicate)
  finally show ?thesis
    unfolding strip_zeros_def by blast
qed

lemma strip_zeros_digits: "list_all is_digit ds \<Longrightarrow> list_all is_digit (strip_zeros ds)"
  by (auto simp: strip_zeros_def list_all_iff dest: set_dropWhileD)

lemma fraction_value:
  assumes "f < 10 ^ 18"
  defines "padded \<equiv> replicate (18 - length (show_nat f)) CHR ''0'' @ show_nat f"
  defines "kept \<equiv> strip_zeros padded"
  defines "F \<equiv> (if kept = [] then ''0'' else kept)"
  shows "list_all is_digit F"
    and "(of_nat (nat_of_digits F) :: rat) / 10 ^ length F = of_nat f / 10 ^ 18"
proof -
  have len: "length padded = 18"
    using show_nat_length [OF assms(1)] by (simp add: padded_def)
  have val: "nat_of_digits padded = f"
    by (simp add: padded_def nat_of_digits_append nat_of_digits_zeros show_nat_value)
  have zero: "is_digit CHR ''0''"
    by (simp add: is_digit_def)
  have "list_all is_digit padded"
    using show_nat_digits [of f] zero by (auto simp: padded_def list_all_iff)
  then have kd: "list_all is_digit kept"
    unfolding kept_def by (rule strip_zeros_digits)
  then show "list_all is_digit F"
    using zero by (simp add: F_def)
  obtain k where k: "padded = kept @ replicate k CHR ''0''"
    unfolding kept_def using strip_zeros_decomp by blast
  then have f: "f = nat_of_digits kept * 10 ^ k" and l: "length kept + k = 18"
    using val len by (simp_all add: nat_of_digits_append nat_of_digits_zeros)
  show "(of_nat (nat_of_digits F) :: rat) / 10 ^ length F = of_nat f / 10 ^ 18"
  proof (cases "kept = []")
    case True
    with f show ?thesis
      by (simp add: F_def nat_of_digits_def digit_val_def)
  next
    case False
    have p: "(10 :: rat) ^ 18 = 10 ^ length kept * 10 ^ k"
      unfolding l [symmetric] by (rule power_add)
    have "(of_nat f :: rat) / 10 ^ 18 =
            (of_nat (nat_of_digits kept) * 10 ^ k) / (10 ^ length kept * 10 ^ k)"
      by (simp only: f p of_nat_mult of_nat_power of_nat_numeral)
    also have "\<dots> = of_nat (nat_of_digits kept) / 10 ^ length kept"
      by simp
    finally show ?thesis
      using False by (simp only: F_def if_False)
  qed
qed

lemma display_units_value: "display_units wei = to_double (of_nat wei / 10 ^ 18)"
proof -
  define f where "f = wei mod 10 ^ 18"
  define F where "F = (if strip_zeros (replicate (18 - length (show_nat f)) CHR ''0'' @ show_nat f) = []
       then ''0''
       else strip_zeros (replicate (18 - length (show_nat f)) CHR ''0'' @ show_nat f))"
  have f18: "f < 10 ^ 18"
    by (simp add: f_def)
  have Fd: "list_all is_digit F"
    and Fv: "(of_nat (nat_of_digits F) :: rat) / 10 ^ length F = of_nat f / 10 ^ 18"
    unfolding F_def by (rule fraction_value [OF f18])+
  obtain d r where d: "d < 10" "show_nat (wei div 10 ^ 18) = digit_char d # r"
    using show_nat_hd by blast
  have shape: "formatEther wei = show_nat (wei div 10 ^ 18) @ CHR ''.'' # F"
    by (simp add: formatEther_def Let_def F_def f_def)
  have "parseFloat_string (formatEther wei) =
          to_double (of_nat (nat_of_digits (show_nat (wei div 10 ^ 18) @ F)) / 10 ^ length F)"
    unfolding shape by (rule parse_decimal [OF show_nat_digits Fd d(2) d(1)])
  also have "(of_nat (nat_of_digits (show_nat (wei div 10 ^ 18) @ F)) :: rat) / 10 ^ length F =
               of_nat (wei div 10 ^ 18) + of_nat (nat_of_digits F) / 10 ^ length F"
    by (simp add: nat_of_digits_append show_nat_value add_divide_distrib)
  also have "\<dots> = of_nat (wei div 10 ^ 18) + of_nat (wei mod 10 ^ 18) / 10 ^ 18"
    by (simp add: Fv f_def)
  also have "\<dots> = of_nat wei / 10 ^ 18"
  proof -
    have "(of_nat wei :: rat) = of_nat (wei div 10 ^ 18 * 10 ^ 18 + wei mod 10 ^ 18)"
      by simp
    also have "\<dots> = of_nat (wei div 10 ^ 18) * 10 ^ 18 + of_nat (wei mod 10 ^ 18)"
      by (simp only: of_nat_add of_nat_mult of_nat_power of_nat_numeral)
    finally show ?thesis
      by (simp add: add_divide_distrib)
  qed
  finally show ?thesis
    by (simp only: display_units_def)
qed

text \<open>The two guards of the transfer endpoint, in terms of that quotient.\<close>

lemma to_double_below:
  "js_lt (to_double q) (Fin 0.002) \<longleftrightarrow> q < 0.002"
  by (simp add: to_double_def)

lemma to_double_funded:
  assumes "0.002 \<le> q"
  shows "to_double q = PosInf \<or> to_double q = Fin q"
  using assms by (simp add: to_double_def)

lemma to_double_wei:
  assumes "of_nat wei / 10 ^ 18 < (2 ^ 1024 - 2 ^ 970 :: rat)"
  shows "to_double (of_nat wei / 10 ^ 18) = Fin (of_nat wei / 10 ^ 18)"
proof (cases "wei = 0")
  case True
  then show ?thesis by (simp add: to_double_def)
next
  case False
  then have "(1 :: rat) \<le> of_nat wei"
    by simp
  then have "(1 :: rat) / 10 ^ 18 \<le> of_nat wei / 10 ^ 18"
    by (simp add: divide_right_mono)
  moreover have "(1 :: rat) / 2 ^ 1075 < 1 / 10 ^ 18"
    by simp
  ultimately have "\<not> of_nat wei / 10 ^ 18 \<le> (1 :: rat) / 2 ^ 1075"
    by linarith
  with assms show ?thesis
    by (simp add: to_double_def)
qed

lemma display_units_exact:
  assumes "of_nat wei / 10 ^ 18 < (2 ^ 1024 - 2 ^ 970 :: rat)"
  shows "display_units wei = Fin (of_nat wei / 10 ^ 18)"
  unfolding display_units_value using assms by (rule to_double_wei)

lemma small_balance_exact:
  assumes "of_nat bal / 10 ^ 18 < (0.002 :: rat)"
  shows "display_units bal = Fin (of_nat bal / 10 ^ 18)"
proof -
  have "(0.002 :: rat) < 2 ^ 1024 - 2 ^ 970"
    by simp
  with assms have "of_nat bal / 10 ^ 18 < (2 ^ 1024 - 2 ^ 970 :: rat)"
    by (rule less_trans)
  then show ?thesis
    by (rule display_units_exact)
qed

lemma negative_min:
  assumes "js_lt n (Fin 0)" and "0.002 \<le> q"
  shows "js_le (Math_min n (js_sub (to_double q) (Fin 0.002))) (Fin 0)"
  using to_double_funded [OF assms(2)] assms by (cases n) (auto simp: min_def)

lemma positive_min:
  assumes "0 < a" and "0.002 + a \<le> q"
  shows "\<not> js_le (Math_min (Fin a) (js_sub (to_double q) (Fin 0.002))) (Fin 0)"
proof -
  have "0.002 \<le> q"
    using assms by simp
  from to_double_funded [OF this] assms show ?thesis
    by (auto simp: min_def)
qed

subsection \<open>Evaluation on concrete inputs\<close>

text \<open>Rules that let the simplifier run the printing and parsing functions on literals.\<close>

lemma show_nat_numeral:
  "show_nat (numeral k) =
     (if numeral k < (10 :: nat) then [digit_char (numeral k)]
      else show_nat (numeral k div 10) @ [digit_char (numeral k mod 10)])"
  by (rule show_nat.simps)

lemma show_nat_0: "show_nat 0 = ''0''"
  by (simp add: show_nat.simps digit_char_def)

lemma show_nat_1: "show_nat 1 = ''1''"
  by (simp add: show_nat.simps digit_char_def)

lemmas show_nat_eval = show_nat_numeral show_nat_0 show_nat_1 digit_char_def

lemma pad_numeral: "replicate (numeral k) c = c # replicate (numeral k - 1) c"
  by (simp add: numeral_eq_Suc)

lemmas parseFloat_eval =
  parseFloat_def parseFloat_string_def parse_signed_def parse_unsigned_def parse_exponent_def
  is_white_def is_digit_def to_double_def pow10_def nat_of_digits_def digit_val_def

lemma parseFloat_Undefined: "parseFloat Undefined = Inr NaN"
  by (simp add: parseFloat_eval)

text \<open>The sample world starts up on the first node, and then needs no bootstrap.\<close>

lemma startup:
  "initProvider (sample_world b) cold =
     (ready, True, [EvGetBlockNumber ''https://ethereum-rpc.publicnode.com''])"
  by (simp add: initProvider_def RPC_URLS_def sample_world_def cold_def ready_def)

lemma bootstrap_ready: "bootstrap W ready = (ready, [])"
  by (simp add: bootstrap_def ready_def)

lemma ready_wallet:
  "wallet ready = Some \<lparr>address = ''0xWallet'', privateKey = ''0xkey'',
                     boundTo = ''https://ethereum-rpc.publicnode.com''\<rparr>"
  and ready_provider: "provider ready = Some ''https://ethereum-rpc.publicnode.com''"
  by (simp_all add: ready_def)

lemma sample_getBalance: "getBalance (sample_world b) p a = Inr b"
  by (simp add: sample_world_def)

lemma sample_steps:
  "getTransactionCount (sample_world b) p a = Inr 7"
  "getFeeData (sample_world b) p = Inr (Some 30000000000)"
  "signTransaction (sample_world b) w t = Inr ''0xsigned''"
  "broadcastTransaction (sample_world b) p s = Inr ''0xhash''"
  "wait (sample_world b) p h = Inr \<lparr>blockNumber = 19000001, gasUsed = 21000\<rparr>"
  "parseEther_toString (sample_world b) = sample_parseEther"
  by (simp_all add: sample_world_def)

subsection \<open>The shape of a transfer call\<close>

text \<open>
  The transfer endpoint once a wallet is there and the amount and the balance have been
  read: the two guards, then the calls that build, sign and send the transaction.
\<close>

lemma convert_ready:
  assumes "bootstrap W g = (g1, tr1)" and "wallet g1 = Some w" and "provider g1 = Some p"
    and "ethAmount B = Inr amt" and "getBalance W p (address w) = Inr bal"
  shows "convert W g B =
     (let balanceETH = display_units bal in
      if js_lt balanceETH (Fin 0.002) then
        (g1, \<lparr>code = 400, json = ErrorBalance ''Need 0.002 ETH for gas'' balanceETH\<rparr>,
         tr1 @ [EvGetBalance p (address w)])
      else if js_le (Math_min amt (js_sub balanceETH (Fin 0.002))) (Fin 0) then
        (g1, \<lparr>code = 400, json = ErrorBalance ''Insufficient after gas'' balanceETH\<rparr>,
         tr1 @ [EvGetBalance p (address w)])
      else
        (case
           await (EvGetTransactionCount p (address w)) (getTransactionCount W p (address w)) (\<lambda>nonce.
           await (EvGetFeeData p) (getFeeData W p) (\<lambda>gasPrice.
           attempt (parseEther_toString W amt) (\<lambda>v.
           let tx = \<lparr>tx_to = destination B, tx_value = v, tx_nonce = nonce, tx_gasLimit = 21000,
                     tx_gasPrice = gasPrice, tx_chainId = 1\<rparr> in
           await (EvSign w tx) (signTransaction W w tx) (\<lambda>signedTx.
           await (EvBroadcast p signedTx) (broadcastTransaction W p signedTx) (\<lambda>h.
           await (EvWait p h) (wait W p h) (\<lambda>rc.
             (Inr \<lparr>code = 200,
                   json = Transfer
                     \<lparr>res_success = True, res_txHash = h, res_hash = h,
                      res_transactionHash = h, res_from = address w, res_to = destination B,
                      res_amount = amt, res_blockNumber = blockNumber rc,
                      res_gasUsed = show_nat (gasUsed rc)\<rparr>\<rparr>, [])))))))
         of (Inl e, tr) \<Rightarrow> (g1, \<lparr>code = 500, json = Error e\<rparr>, tr1 @ EvGetBalance p (address w) # tr)
          | (Inr r, tr) \<Rightarrow> (g1, r, tr1 @ EvGetBalance p (address w) # tr)))"
  using assms
  by (simp add: convert_def convert_try_def the_provider_def attempt_def Let_def
        await_def [of "EvGetBalance p (address w)"] split: prod.splits sum.splits)

text \<open>A conversion error of the amount reaches the \<^verbatim>\<open>catch\<close> before any call is made.\<close>

lemma convert_amount_throws:
  assumes "bootstrap W g = (g1, tr1)" and "wallet g1 = Some w" and "ethAmount B = Inl e"
  shows "convert W g B = (g1, \<lparr>code = 500, json = Error e\<rparr>, tr1)"
  using assms by (simp add: convert_def convert_try_def attempt_def)

text \<open>
  Past both guards, with every call succeeding, the handler signs, broadcasts and
  reports \<^verbatim>\<open>ethAmount\<close>: the requested amount, whatever \<^verbatim>\<open>maxTransfer\<close> was.
\<close>

lemma convert_proceeds:
  assumes "bootstrap W g = (g1, tr1)" and "wallet g1 = Some w" and "provider g1 = Some p"
    and "ethAmount B = Inr amt"
    and "getBalance W p (address w) = Inr bal"
    and "\<not> js_lt (display_units bal) (Fin 0.002)"
    and "\<not> js_le (Math_min amt (js_sub (display_units bal) (Fin 0.002))) (Fin 0)"
    and "getTransactionCount W p (address w) = Inr nonce"
    and "getFeeData W p = Inr gasPrice"
    and "parseEther_toString W amt = Inr v"
    and "signTransaction W w
           \<lparr>tx_to = destination B, tx_value = v, tx_nonce = nonce, tx_gasLimit = 21000,
            tx_gasPrice = gasPrice, tx_chainId = 1\<rparr> = Inr signedTx"
    and "broadcastTransaction W p signedTx = Inr h"
    and "wait W p h = Inr rc"
  shows "convert W g B =
           (g1,
            \<lparr>code = 200,
             json = Transfer
               \<lparr>res_success = True, res_txHash = h, res_hash = h, res_transactionHash = h,
                res_from = address w, res_to = destination B, res_amount = amt,
                res_blockNumber = blockNumber rc, res_gasUsed = show_nat (gasUsed rc)\<rparr>\<rparr>,
            tr1 @
            [EvGetBalance p (address w), EvGetTransactionCount p (address w), EvGetFeeData p,
             EvSign w \<lparr>tx_to = destination B, tx_value = v, tx_nonce = nonce,
                      tx_gasLimit = 21000, tx_gasPrice = gasPrice, tx_chainId = 1\<rparr>,
             EvBroadcast p signedTx, EvWait p h])"
  unfolding convert_ready [OF assms(1-5)]
  using assms(6-13) by (simp add: await_def attempt_def)

text \<open>An amount that \<^verbatim>\<open>parseEther\<close> refuses ends the call after the fee data is read.\<close>

lemma convert_wei_fails:
  assumes "bootstrap W g = (g1, tr1)" and "wallet g1 = Some w" and "provider g1 = Some p"
    and "ethAmount B = Inr amt"
    and "getBalance W p (address w) = Inr bal"
    and "\<not> js_lt (display_units bal) (Fin 0.002)"
    and "\<not> js_le (Math_min amt (js_sub (display_units bal) (Fin 0.002))) (Fin 0)"
    and "getTransactionCount W p (address w) = Inr nonce"
    and "getFeeData W p = Inr gasPrice"
    and "parseEther_toString W amt = Inl e"
  shows "convert W g B =
           (g1, \<lparr>code = 500, json = Error e\<rparr>,
            tr1 @ [EvGetBalance p (address w), EvGetTransactionCount p (address w),
                   EvGetFeeData p])"
  unfolding convert_ready [OF assms(1-5)]
  using assms(6-10) by (simp add: await_def attempt_def)

text \<open>
  In every world and for every body: a transaction that the call signs carries the
  value of \<^verbatim>\<open>ethAmount\<close>, and a success response reports \<^verbatim>\<open>ethAmount\<close>.
\<close>

lemma probes_not_signed: "list_all is_probe tr \<Longrightarrow> EvSign w t \<notin> set tr"
  by (auto simp: list_all_iff)

lemma convert_try_carries_ethAmount:
  assumes "convert_try W g w B = (r, tr)" and "ethAmount B = Inr amt"
  shows "(\<forall>w' t. EvSign w' t \<in> set tr \<longrightarrow> parseEther_toString W amt = Inr (tx_value t))
         \<and> (\<forall>c res. r = Inr \<lparr>code = c, json = Transfer res\<rparr> \<longrightarrow> res_amount res = amt)"
  using assms
  by (auto simp: convert_try_def attempt_def await_def Let_def
      split: sum.splits if_splits prod.splits)

lemma convert_carries_ethAmount:
  assumes "convert W g B = (g', r, tr)" and "ethAmount B = Inr amt"
  shows "(\<forall>w t. EvSign w t \<in> set tr \<longrightarrow> parseEther_toString W amt = Inr (tx_value t))
         \<and> (\<forall>res. json r = Transfer res \<longrightarrow> res_amount res = amt)"
proof -
  obtain g1 tr1 where b: "bootstrap W g = (g1, tr1)"
    by (cases "bootstrap W g")
  have quiet: "EvSign w t \<notin> set tr1" for w t
    using bootstrap_probes [OF b] by (rule probes_not_signed)
  show ?thesis
  proof (cases "wallet g1")
    case None
    with assms(1) b quiet show ?thesis
      by (auto simp: convert_def)
  next
    case (Some w)
    obtain r2 tr2 where c: "convert_try W g1 w B = (r2, tr2)"
      by (cases "convert_try W g1 w B")
    from convert_try_carries_ethAmount [OF c assms(2)] assms(1) b Some c quiet
    show ?thesis
      by (cases r2; cases r) (auto simp: convert_def)
  qed
qed

lemma probes_move_nothing: "list_all is_probe tr \<Longrightarrow> \<not> list_ex moves_funds tr"
proof (induction tr)
  case Nil
  then show ?case by simp
next
  case (Cons e tr)
  then show ?case by (cases e) simp_all
qed

lemma positive_amount:
  assumes "parseFloat (js_or (field B ''amountETH'') (field B ''amount'')) = Inr (Fin a)"
    and "0 < a"
  shows "ethAmount B = Inr (Fin a)"
  using assms by (simp add: ethAmount_def)

lemma negative_amount:
  assumes "parseFloat (js_or (field B ''amountETH'') (field B ''amount'')) = Inr n"
    and "js_lt n (Fin 0)"
  shows "ethAmount B = Inr n"
  using assms by (cases n) (simp_all add: ethAmount_def)

subsection \<open>The transfer endpoint without a signer\<close>

text \<open>
  C5. If the wallet is still unset after the bootstrap at the start of a \<^verbatim>\<open>/convert\<close>
  call, the call answers 500 with the error \<^verbatim>\<open>Wallet not configured\<close>. The process
  state is the one the bootstrap left, and the only calls made are the bootstrap's
  liveness probes: no balance query, no signing, no broadcast.
\<close>

theorem convert_without_wallet:
  assumes "bootstrap W g = (g1, tr)" and "wallet g1 = None"
  shows "convert W g B = (g1, \<lparr>code = 500, json = Error ''Wallet not configured''\<rparr>, tr)
         \<and> list_all is_probe tr"
  using assms bootstrap_probes [OF assms(1)] by (simp add: convert_def)

lemma bootstrap_no_key:
  "bootstrap (sample_world 0\<lparr>PRIVATE_KEY := None\<rparr>) cold =
     (\<lparr>provider = Some ''https://ethereum-rpc.publicnode.com'', wallet = None\<rparr>,
      [EvGetBlockNumber ''https://ethereum-rpc.publicnode.com''])"
  by (simp add: bootstrap_def initProvider_def RPC_URLS_def sample_world_def cold_def)

theorem convert_without_wallet_witness:
  "convert (sample_world 0\<lparr>PRIVATE_KEY := None\<rparr>) cold [(''amount'', Num (Fin 1))] =
     (\<lparr>provider = Some ''https://ethereum-rpc.publicnode.com'', wallet = None\<rparr>,
      \<lparr>code = 500, json = Error ''Wallet not configured''\<rparr>,
      [EvGetBlockNumber ''https://ethereum-rpc.publicnode.com''])
   \<and> list_all is_probe [EvGetBlockNumber ''https://ethereum-rpc.publicnode.com'']"
  using convert_without_wallet [OF bootstrap_no_key] by simp

subsection \<open>The amount that is sent\<close>

text \<open>
  C2, amended. When the wallet is set, the amount field (\<^verbatim>\<open>amountETH || amount\<close>) is read
  by \<^verbatim>\<open>parseFloat\<close> as a number \<open>a\<close> strictly above zero, the balance is at least
  \<open>0.002 + a\<close>, and the nonce, the fee data, the conversion of \<open>a\<close> to wei, the
  signature, the broadcast and the confirmation all succeed, the call answers 200 with
  \<^verbatim>\<open>amount\<close> equal to \<open>a\<close>, and the one transaction it signs carries the value \<open>v\<close>
  that \<^verbatim>\<open>parseEther\<close> gives for \<open>a\<close>.
\<close>

theorem convert_exact_amount:
  assumes "bootstrap W g = (g1, tr1)" and "wallet g1 = Some w" and "provider g1 = Some p"
    and "parseFloat (js_or (field B ''amountETH'') (field B ''amount'')) = Inr (Fin a)"
    and "0 < a"
    and "getBalance W p (address w) = Inr bal"
    and "0.002 + a \<le> of_nat bal / 10 ^ 18"
    and "getTransactionCount W p (address w) = Inr nonce"
    and "getFeeData W p = Inr gasPrice"
    and "parseEther_toString W (Fin a) = Inr v"
    and "signTransaction W w
           \<lparr>tx_to = destination B, tx_value = v, tx_nonce = nonce, tx_gasLimit = 21000,
            tx_gasPrice = gasPrice, tx_chainId = 1\<rparr> = Inr signedTx"
    and "broadcastTransaction W p signedTx = Inr h"
    and "wait W p h = Inr rc"
  shows "convert W g B =
           (g1,
            \<lparr>code = 200,
             json = Transfer
               \<lparr>res_success = True, res_txHash = h, res_hash = h, res_transactionHash = h,
                res_from = address w, res_to = destination B, res_amount = Fin a,
                res_blockNumber = blockNumber rc, res_gasUsed = show_nat (gasUsed rc)\<rparr>\<rparr>,
            tr1 @
            [EvGetBalance p (address w), EvGetTransactionCount p (address w), EvGetFeeData p,
             EvSign w \<lparr>tx_to = destination B, tx_value = v, tx_nonce = nonce,
                      tx_gasLimit = 21000, tx_gasPrice = gasPrice, tx_chainId = 1\<rparr>,
             EvBroadcast p signedTx, EvWait p h])"
proof -
  have amt: "ethAmount B = Inr (Fin a)"
    using assms(4,5) by (rule positive_amount)
  have enough: "\<not> js_lt (display_units bal) (Fin 0.002)"
    unfolding display_units_value to_double_below using assms(5,7) by simp
  have positive:
    "\<not> js_le (Math_min (Fin a) (js_sub (display_units bal) (Fin 0.002))) (Fin 0)"
    unfolding display_units_value using assms(5,7) by (rule positive_min)
  show ?thesis
    by (rule convert_proceeds [OF assms(1-3) amt assms(6) enough positive assms(8-13)])
qed

theorem convert_exact_amount_witness:
  "convert (sample_world 1000000000000000000) ready
     [(''amountETH'', Str ''0.25''), (''to'', Str ''0xDest'')] =
     (ready,
      \<lparr>code = 200,
       json = Transfer
         \<lparr>res_success = True, res_txHash = ''0xhash'', res_hash = ''0xhash'',
          res_transactionHash = ''0xhash'', res_from = ''0xWallet'', res_to = Str ''0xDest'',
          res_amount = Fin (1 / 4), res_blockNumber = 19000001, res_gasUsed = ''21000''\<rparr>\<rparr>,
      [EvGetBalance ''https://ethereum-rpc.publicnode.com'' ''0xWallet'',
       EvGetTransactionCount ''https://ethereum-rpc.publicnode.com'' ''0xWallet'',
       EvGetFeeData ''https://ethereum-rpc.publicnode.com'',
       EvSign \<lparr>address = ''0xWallet'', privateKey = ''0xkey'',
                boundTo = ''https://ethereum-rpc.publicnode.com''\<rparr>
         \<lparr>tx_to = Str ''0xDest'', tx_value = 250000000000000000, tx_nonce = 7,
          tx_gasLimit = 21000, tx_gasPrice = Some 30000000000, tx_chainId = 1\<rparr>,
       EvBroadcast ''https://ethereum-rpc.publicnode.com'' ''0xsigned'',
       EvWait ''https://ethereum-rpc.publicnode.com'' ''0xhash''])"
proof -
  let ?B = "[(''amountETH'', Str ''0.25''), (''to'', Str ''0xDest'')]"
  have amt: "parseFloat (js_or (field ?B ''amountETH'') (field ?B ''amount'')) = Inr (Fin (1 / 4))"
    by (simp add: field_def js_or_def parseFloat_eval)
  have dest: "destination ?B = Str ''0xDest''"
    by (simp add: destination_def field_def js_or_def)
  have pos: "(0 :: rat) < 1 / 4"
    by simp
  have fits: "0.002 + 1 / 4 \<le> (of_nat 1000000000000000000 / 10 ^ 18 :: rat)"
    by simp
  have wei: "parseEther_toString (sample_world 1000000000000000000) (Fin (1 / 4)) =
               Inr 250000000000000000"
    by (simp add: sample_steps sample_parseEther_def)
  show ?thesis
    using convert_exact_amount [OF bootstrap_ready ready_wallet ready_provider amt pos
        sample_getBalance fits sample_steps(1) sample_steps(2) wei sample_steps(3)
        sample_steps(4) sample_steps(5)]
    by (simp add: dest show_nat_eval)
qed

text \<open>
  As stated, for every parsed amount with a balance of at least 0.002 more, C2 fails.
  An amount that parses to 0 is replaced by the default: with a balance of 1 the call
  signs a transaction of \<open>10^16\<close> wei and reports \<^verbatim>\<open>amount: 0.01\<close>, not 0. An amount
  that \<^verbatim>\<open>toString\<close> prints in exponent notation, such as \<open>10^-7\<close>, is refused by
  \<^verbatim>\<open>parseEther\<close>: nothing is signed and the call answers 500.
\<close>

theorem convert_exact_amount_counterexample:
  "parseFloat (js_or (field [(''amount'', Num (Fin 0))] ''amountETH'')
      (field [(''amount'', Num (Fin 0))] ''amount'')) = Inr (Fin 0)
   \<and> 0.002 + 0 \<le> (of_nat 1000000000000000000 / 10 ^ 18 :: rat)
   \<and> convert (sample_world 1000000000000000000) ready [(''amount'', Num (Fin 0))] =
     (ready,
      \<lparr>code = 200,
       json = Transfer
         \<lparr>res_success = True, res_txHash = ''0xhash'', res_hash = ''0xhash'',
          res_transactionHash = ''0xhash'', res_from = ''0xWallet'', res_to = Str TREASURY,
          res_amount = Fin (1 / 100), res_blockNumber = 19000001, res_gasUsed = ''21000''\<rparr>\<rparr>,
      [EvGetBalance ''https://ethereum-rpc.publicnode.com'' ''0xWallet'',
       EvGetTransactionCount ''https://ethereum-rpc.publicnode.com'' ''0xWallet'',
       EvGetFeeData ''https://ethereum-rpc.publicnode.com'',
       EvSign \<lparr>address = ''0xWallet'', privateKey = ''0xkey'',
                boundTo = ''https://ethereum-rpc.publicnode.com''\<rparr>
         \<lparr>tx_to = Str TREASURY, tx_value = 10000000000000000, tx_nonce = 7,
          tx_gasLimit = 21000, tx_gasPrice = Some 30000000000, tx_chainId = 1\<rparr>,
       EvBroadcast ''https://ethereum-rpc.publicnode.com'' ''0xsigned'',
       EvWait ''https://ethereum-rpc.publicnode.com'' ''0xhash''])
   \<and> convert (sample_world 1000000000000000000) ready [(''amount'', Num (Fin (1 / 10 ^ 7)))] =
     (ready, \<lparr>code = 500, json = Error ''invalid FixedNumber string value''\<rparr>,
      [EvGetBalance ''https://ethereum-rpc.publicnode.com'' ''0xWallet'',
       EvGetTransactionCount ''https://ethereum-rpc.publicnode.com'' ''0xWallet'',
       EvGetFeeData ''https://ethereum-rpc.publicnode.com''])"
proof -
  let ?Z = "[(''amount'', Num (Fin 0))]"
  let ?T = "[(''amount'', Num (Fin (1 / 10 ^ 7)))]"
  have bal: "display_units 1000000000000000000 = Fin 1"
    by (simp add: display_units_value to_double_def)
  have parsed: "parseFloat (js_or (field ?Z ''amountETH'') (field ?Z ''amount'')) = Inr (Fin 0)"
    by (simp add: field_def js_or_def parseFloat_def)
  have zero: "ethAmount ?Z = Inr (Fin (1 / 100))"
    by (simp add: ethAmount_def field_def js_or_def parseFloat_def)
  have tiny: "ethAmount ?T = Inr (Fin (1 / 10 ^ 7))"
    by (simp add: ethAmount_def field_def js_or_def parseFloat_def)
  have dest: "destination ?Z = Str TREASURY"
    by (simp add: destination_def field_def js_or_def)
  have enough: "\<not> js_lt (display_units 1000000000000000000) (Fin 0.002)"
    by (simp add: bal)
  have pz: "\<not> js_le (Math_min (Fin (1 / 100))
              (js_sub (display_units 1000000000000000000) (Fin 0.002))) (Fin 0)"
    by (simp add: bal)
  have pt: "\<not> js_le (Math_min (Fin (1 / 10 ^ 7))
              (js_sub (display_units 1000000000000000000) (Fin 0.002))) (Fin 0)"
    by (simp add: bal)
  have wz: "parseEther_toString (sample_world 1000000000000000000) (Fin (1 / 100)) =
              Inr 10000000000000000"
    by (simp add: sample_steps sample_parseEther_def)
  have wt: "parseEther_toString (sample_world 1000000000000000000) (Fin (1 / 10 ^ 7)) =
              Inl ''invalid FixedNumber string value''"
    by (simp add: sample_steps sample_parseEther_def)
  have sent: "convert (sample_world 1000000000000000000) ready ?Z =
     (ready,
      \<lparr>code = 200,
       json = Transfer
         \<lparr>res_success = True, res_txHash = ''0xhash'', res_hash = ''0xhash'',
          res_transactionHash = ''0xhash'', res_from = ''0xWallet'', res_to = Str TREASURY,
          res_amount = Fin (1 / 100), res_blockNumber = 19000001, res_gasUsed = ''21000''\<rparr>\<rparr>,
      [EvGetBalance ''https://ethereum-rpc.publicnode.com'' ''0xWallet'',
       EvGetTransactionCount ''https://ethereum-rpc.publicnode.com'' ''0xWallet'',
       EvGetFeeData ''https://ethereum-rpc.publicnode.com'',
       EvSign \<lparr>address = ''0xWallet'', privateKey = ''0xkey'',
                boundTo = ''https://ethereum-rpc.publicnode.com''\<rparr>
         \<lparr>tx_to = Str TREASURY, tx_value = 10000000000000000, tx_nonce = 7,
          tx_gasLimit = 21000, tx_gasPrice = Some 30000000000, tx_chainId = 1\<rparr>,
       EvBroadcast ''https://ethereum-rpc.publicnode.com'' ''0xsigned'',
       EvWait ''https://ethereum-rpc.publicnode.com'' ''0xhash''])"
    using convert_proceeds [OF bootstrap_ready ready_wallet ready_provider zero
        sample_getBalance enough pz sample_steps(1) sample_steps(2) wz sample_steps(3)
        sample_steps(4) sample_steps(5)]
    by (simp add: dest show_nat_eval)
  have refused: "convert (sample_world 1000000000000000000) ready ?T =
     (ready, \<lparr>code = 500, json = Error ''invalid FixedNumber string value''\<rparr>,
      [EvGetBalance ''https://ethereum-rpc.publicnode.com'' ''0xWallet'',
       EvGetTransactionCount ''https://ethereum-rpc.publicnode.com'' ''0xWallet'',
       EvGetFeeData ''https://ethereum-rpc.publicnode.com''])"
    using convert_wei_fails [OF bootstrap_ready ready_wallet ready_provider tiny
        sample_getBalance enough pt sample_steps(1) sample_steps(2) wt]
    by simp
  have fits: "0.002 + 0 \<le> (of_nat 1000000000000000000 / 10 ^ 18 :: rat)"
    by simp
  from parsed fits sent refused show ?thesis
    by (intro conjI)
qed

text \<open>
  C1. The claim is that a request for more than the balance less the 0.002 reserve
  sends, and reports, the balance less the reserve: 0.998 for a request of 2.0 on a
  balance of 1.0. The handler computes that cap as \<^verbatim>\<open>maxTransfer\<close> and only tests its
  sign. With a balance of \<open>10^18\<close> wei and \<^verbatim>\<open>amount: 2\<close> the cap is 0.998, yet the
  handler signs a transaction of \<open>2 * 10^18\<close> wei and, in a world that accepts the
  broadcast, answers with \<^verbatim>\<open>amount: 2\<close>.
\<close>

theorem convert_over_balance:
  "Math_min (Fin 2) (js_sub (display_units 1000000000000000000) (Fin 0.002)) = Fin 0.998
   \<and> convert (sample_world 1000000000000000000) ready [(''amount'', Num (Fin 2))] =
     (ready,
      \<lparr>code = 200,
       json = Transfer
         \<lparr>res_success = True, res_txHash = ''0xhash'', res_hash = ''0xhash'',
          res_transactionHash = ''0xhash'', res_from = ''0xWallet'', res_to = Str TREASURY,
          res_amount = Fin 2, res_blockNumber = 19000001, res_gasUsed = ''21000''\<rparr>\<rparr>,
      [EvGetBalance ''https://ethereum-rpc.publicnode.com'' ''0xWallet'',
       EvGetTransactionCount ''https://ethereum-rpc.publicnode.com'' ''0xWallet'',
       EvGetFeeData ''https://ethereum-rpc.publicnode.com'',
       EvSign \<lparr>address = ''0xWallet'', privateKey = ''0xkey'',
                boundTo = ''https://ethereum-rpc.publicnode.com''\<rparr>
         \<lparr>tx_to = Str TREASURY, tx_value = 2000000000000000000, tx_nonce = 7,
          tx_gasLimit = 21000, tx_gasPrice = Some 30000000000, tx_chainId = 1\<rparr>,
       EvBroadcast ''https://ethereum-rpc.publicnode.com'' ''0xsigned'',
       EvWait ''https://ethereum-rpc.publicnode.com'' ''0xhash''])"
proof -
  have amt: "ethAmount [(''amount'', Num (Fin 2))] = Inr (Fin 2)"
    by (simp add: ethAmount_def field_def js_or_def parseFloat_def)
  have dest: "destination [(''amount'', Num (Fin 2))] = Str TREASURY"
    by (simp add: destination_def field_def js_or_def)
  have bal: "display_units 1000000000000000000 = Fin 1"
    by (simp add: display_units_value to_double_def)
  have enough: "\<not> js_lt (display_units 1000000000000000000) (Fin 0.002)"
    by (simp add: bal)
  have positive:
    "\<not> js_le (Math_min (Fin 2) (js_sub (display_units 1000000000000000000) (Fin 0.002))) (Fin 0)"
    by (simp add: bal)
  have wei: "parseEther_toString (sample_world 1000000000000000000) (Fin 2) =
               Inr 2000000000000000000"
    by (simp add: sample_steps sample_parseEther_def)
  show ?thesis
    using convert_proceeds [OF bootstrap_ready ready_wallet ready_provider amt
        sample_getBalance enough positive sample_steps(1) sample_steps(2) wei sample_steps(3)
        sample_steps(4) sample_steps(5)]
    by (simp add: dest show_nat_eval bal)
qed

subsection \<open>The insufficient-funds answers\<close>

text \<open>
  C3, amended. For every \<^verbatim>\<open>/convert\<close> request whose amount converts to a number
  without an error, when the wallet is set and the balance read for it is strictly
  below 0.002, the call answers 400 with the error \<^verbatim>\<open>Need 0.002 ETH for gas\<close> and the
  balance, whatever that amount is; the calls made are the bootstrap's probes and the
  balance query, so nothing is signed or broadcast.
\<close>

theorem convert_below_reserve:
  assumes "bootstrap W g = (g1, tr1)" and "wallet g1 = Some w" and "provider g1 = Some p"
    and "ethAmount B = Inr amt"
    and "getBalance W p (address w) = Inr bal"
    and "of_nat bal / 10 ^ 18 < (0.002 :: rat)"
  shows "convert W g B =
           (g1, \<lparr>code = 400,
                 json = ErrorBalance ''Need 0.002 ETH for gas'' (Fin (of_nat bal / 10 ^ 18))\<rparr>,
            tr1 @ [EvGetBalance p (address w)])
         \<and> \<not> list_ex moves_funds (tr1 @ [EvGetBalance p (address w)])"
proof -
  have "\<not> list_ex moves_funds tr1"
    using assms(1) by (intro probes_move_nothing bootstrap_probes)
  moreover have "js_lt (display_units bal) (Fin 0.002)"
    unfolding display_units_value to_double_below using assms(6) .
  ultimately have "convert W g B =
           (g1, \<lparr>code = 400,
                 json = ErrorBalance ''Need 0.002 ETH for gas'' (display_units bal)\<rparr>,
            tr1 @ [EvGetBalance p (address w)])
         \<and> \<not> list_ex moves_funds (tr1 @ [EvGetBalance p (address w)])"
    by (simp add: convert_ready [OF assms(1-5)])
  then show ?thesis
    unfolding small_balance_exact [OF assms(6)] .
qed

theorem convert_below_reserve_witness:
  "convert (sample_world 1000000000000000) ready [(''amount'', Num (Fin 1))] =
     (ready, \<lparr>code = 400, json = ErrorBalance ''Need 0.002 ETH for gas'' (Fin (1 / 1000))\<rparr>,
      [EvGetBalance ''https://ethereum-rpc.publicnode.com'' ''0xWallet''])
   \<and> \<not> list_ex moves_funds [EvGetBalance ''https://ethereum-rpc.publicnode.com'' ''0xWallet'']"
proof -
  have a: "ethAmount [(''amount'', Num (Fin 1))] = Inr (Fin 1)"
    by (simp add: ethAmount_def field_def js_or_def parseFloat_def)
  have w: "wallet ready = Some \<lparr>address = ''0xWallet'', privateKey = ''0xkey'',
                     boundTo = ''https://ethereum-rpc.publicnode.com''\<rparr>"
    and p: "provider ready = Some ''https://ethereum-rpc.publicnode.com''"
    by (simp_all add: ready_def)
  have b: "getBalance (sample_world 1000000000000000) ''https://ethereum-rpc.publicnode.com''
             (address \<lparr>address = ''0xWallet'', privateKey = ''0xkey'',
                     boundTo = ''https://ethereum-rpc.publicnode.com''\<rparr>) = Inr 1000000000000000"
    by (simp add: sample_world_def)
  have lt: "of_nat 1000000000000000 / 10 ^ 18 < (0.002 :: rat)"
    by simp
  show ?thesis
    using convert_below_reserve [OF bootstrap_ready w p a b lt] by simp
qed

text \<open>
  As stated, for every request, C3 fails: an amount that is an object with an own
  \<^verbatim>\<open>toString\<close> property makes \<^verbatim>\<open>parseFloat\<close> throw before the balance is read, and
  the call answers 500 although the wallet holds 0.001.
\<close>

theorem convert_below_reserve_counterexample:
  "getBalance (sample_world 1000000000000000) ''https://ethereum-rpc.publicnode.com'' ''0xWallet''
     = Inr 1000000000000000
   \<and> convert (sample_world 1000000000000000) ready
        [(''amount'', Obj [(''toString'', Num (Fin 1))])] =
       (ready, \<lparr>code = 500, json = Error ''Cannot convert object to primitive value''\<rparr>, [])"
proof -
  have e: "ethAmount [(''amount'', Obj [(''toString'', Num (Fin 1))])] =
             Inl ''Cannot convert object to primitive value''"
    by (simp add: ethAmount_def field_def js_or_def parseFloat_def)
  have w: "wallet ready = Some \<lparr>address = ''0xWallet'', privateKey = ''0xkey'',
                     boundTo = ''https://ethereum-rpc.publicnode.com''\<rparr>"
    by (simp add: ready_def)
  show ?thesis
    using convert_amount_throws [OF bootstrap_ready w e] by (simp add: sample_world_def)
qed

text \<open>
  C10. When the wallet is set, the amount field parses to a number strictly below zero
  and the balance is at least 0.002, the call answers 400 with the error
  \<^verbatim>\<open>Insufficient after gas\<close> and the balance as the handler read it; the calls made
  are the bootstrap's probes and the balance query, so nothing is signed or broadcast.
\<close>

theorem convert_negative_amount:
  assumes "bootstrap W g = (g1, tr1)" and "wallet g1 = Some w" and "provider g1 = Some p"
    and "parseFloat (js_or (field B ''amountETH'') (field B ''amount'')) = Inr n"
    and "js_lt n (Fin 0)"
    and "getBalance W p (address w) = Inr bal"
    and "(0.002 :: rat) \<le> of_nat bal / 10 ^ 18"
  shows "convert W g B =
           (g1, \<lparr>code = 400,
                 json = ErrorBalance ''Insufficient after gas'' (display_units bal)\<rparr>,
            tr1 @ [EvGetBalance p (address w)])
         \<and> \<not> list_ex moves_funds (tr1 @ [EvGetBalance p (address w)])"
proof -
  have quiet: "\<not> list_ex moves_funds tr1"
    using assms(1) by (intro probes_move_nothing bootstrap_probes)
  have amt: "ethAmount B = Inr n"
    using assms(4,5) by (rule negative_amount)
  have funded: "\<not> js_lt (display_units bal) (Fin 0.002)"
    unfolding display_units_value to_double_below using assms(7) by simp
  have "js_le (Math_min n (js_sub (display_units bal) (Fin 0.002))) (Fin 0)"
    unfolding display_units_value using assms(5,7) by (rule negative_min)
  then show ?thesis
    using quiet funded by (simp add: convert_ready [OF assms(1-3) amt assms(6)])
qed

theorem convert_negative_amount_witness:
  "convert (sample_world 1000000000000000000) ready [(''amount'', Str ''-0.5'')] =
     (ready, \<lparr>code = 400, json = ErrorBalance ''Insufficient after gas'' (Fin 1)\<rparr>,
      [EvGetBalance ''https://ethereum-rpc.publicnode.com'' ''0xWallet''])
   \<and> \<not> list_ex moves_funds [EvGetBalance ''https://ethereum-rpc.publicnode.com'' ''0xWallet'']"
proof -
  have n: "parseFloat (js_or (field [(''amount'', Str ''-0.5'')] ''amountETH'')
             (field [(''amount'', Str ''-0.5'')] ''amount'')) = Inr (Fin (- (1 / 2)))"
    by (simp add: field_def js_or_def parseFloat_def parseFloat_string_def parse_signed_def
          parse_unsigned_def parse_exponent_def is_white_def is_digit_def to_double_def
          pow10_def nat_of_digits_def digit_val_def)
  have neg: "js_lt (Fin (- (1 / 2))) (Fin 0)"
    by simp
  have ge: "(0.002 :: rat) \<le> of_nat 1000000000000000000 / 10 ^ 18"
    by simp
  show ?thesis
    using convert_negative_amount [OF bootstrap_ready ready_wallet ready_provider n neg
        sample_getBalance ge]
    by (simp add: display_units_value to_double_def)
qed

subsection \<open>Defaults and precedence of the body fields\<close>

text \<open>
  C4, amended. A body with neither \<^verbatim>\<open>amountETH\<close> nor \<^verbatim>\<open>amount\<close> has the effective
  amount 0.01, and so has a body whose amount converts to a string without an error and
  is read by \<^verbatim>\<open>parseFloat\<close> as \<open>NaN\<close>; a body with none of
  \<^verbatim>\<open>to\<close>, \<^verbatim>\<open>toAddress\<close>, \<^verbatim>\<open>treasury\<close> has the fallback address
  \<^verbatim>\<open>0x4024Fd78E2AD5532FBF3ec2B3eC83870FAe45fC7\<close> as its destination.
\<close>

theorem defaults:
  "(map_of B ''amountETH'' = None \<and> map_of B ''amount'' = None \<longrightarrow>
      ethAmount B = Inr (Fin 0.01))
   \<and> (parseFloat (js_or (field B ''amountETH'') (field B ''amount'')) = Inr NaN \<longrightarrow>
      ethAmount B = Inr (Fin 0.01))
   \<and> (map_of B ''to'' = None \<and> map_of B ''toAddress'' = None \<and> map_of B ''treasury'' = None \<longrightarrow>
      destination B = Str ''0x4024Fd78E2AD5532FBF3ec2B3eC83870FAe45fC7'')"
proof (intro conjI impI)
  assume "map_of B ''amountETH'' = None \<and> map_of B ''amount'' = None"
  then have "js_or (field B ''amountETH'') (field B ''amount'') = Undefined"
    by (simp add: field_def js_or_def)
  then show "ethAmount B = Inr (Fin 0.01)"
    by (simp add: ethAmount_def parseFloat_Undefined)
next
  assume "parseFloat (js_or (field B ''amountETH'') (field B ''amount'')) = Inr NaN"
  then show "ethAmount B = Inr (Fin 0.01)"
    by (simp add: ethAmount_def)
next
  assume "map_of B ''to'' = None \<and> map_of B ''toAddress'' = None \<and> map_of B ''treasury'' = None"
  then show "destination B = Str ''0x4024Fd78E2AD5532FBF3ec2B3eC83870FAe45fC7''"
    by (simp add: destination_def field_def js_or_def TREASURY_def)
qed

theorem defaults_witness:
  "ethAmount [] = Inr (Fin 0.01)
   \<and> ethAmount [(''amount'', Str ''abc'')] = Inr (Fin 0.01)
   \<and> destination [] = Str ''0x4024Fd78E2AD5532FBF3ec2B3eC83870FAe45fC7''"
  using defaults [of "[]"] defaults [of "[(''amount'', Str ''abc'')]"]
  by (simp add: field_def js_or_def parseFloat_eval)

text \<open>
  As stated, for every unparseable amount, C4 fails: an amount that is an object with an
  own \<^verbatim>\<open>toString\<close> property cannot be parsed, yet it gets no default: \<^verbatim>\<open>parseFloat\<close>
  throws, there is no effective amount and the call answers 500.
\<close>

theorem defaults_counterexample:
  "ethAmount [(''amount'', Obj [(''toString'', Str ''x'')])] =
     Inl ''Cannot convert object to primitive value''
   \<and> convert (sample_world 1000000000000000000) ready
        [(''amount'', Obj [(''toString'', Str ''x'')])] =
       (ready, \<lparr>code = 500, json = Error ''Cannot convert object to primitive value''\<rparr>, [])"
proof -
  have e: "ethAmount [(''amount'', Obj [(''toString'', Str ''x'')])] =
             Inl ''Cannot convert object to primitive value''"
    by (simp add: ethAmount_def field_def js_or_def parseFloat_def)
  from e convert_amount_throws [OF bootstrap_ready ready_wallet e] show ?thesis
    by simp
qed

text \<open>
  C9, amended. Among the alias fields the first one that is truthy wins: the amount is
  read from \<^verbatim>\<open>amountETH\<close> when that is truthy and from \<^verbatim>\<open>amount\<close> otherwise; the
  destination is \<^verbatim>\<open>to\<close> if truthy, else \<^verbatim>\<open>toAddress\<close> if truthy, else \<^verbatim>\<open>treasury\<close>
  if truthy, else the fallback address.
\<close>

theorem alias_precedence:
  "(truthy (field B ''amountETH'') \<longrightarrow>
      ethAmount B = ethAmount [(''amountETH'', field B ''amountETH'')])
   \<and> (\<not> truthy (field B ''amountETH'') \<longrightarrow>
      ethAmount B = ethAmount [(''amount'', field B ''amount'')])
   \<and> destination B =
       (if truthy (field B ''to'') then field B ''to''
        else if truthy (field B ''toAddress'') then field B ''toAddress''
        else if truthy (field B ''treasury'') then field B ''treasury''
        else Str TREASURY)"
  by (simp add: ethAmount_def destination_def field_def js_or_def)

theorem alias_precedence_witness:
  "ethAmount [(''amount'', Str ''7''), (''amountETH'', Str ''0.5''), (''treasury'', Str ''0xC''),
              (''toAddress'', Str ''0xB''), (''to'', Str ''0xA'')]
     = ethAmount [(''amountETH'', Str ''0.5'')]
   \<and> ethAmount [(''amountETH'', Num (Fin 0)), (''amount'', Str ''7'')]
     = ethAmount [(''amount'', Str ''7'')]
   \<and> destination [(''amount'', Str ''7''), (''amountETH'', Str ''0.5''), (''treasury'', Str ''0xC''),
              (''toAddress'', Str ''0xB''), (''to'', Str ''0xA'')] = Str ''0xA''"
  using alias_precedence [of "[(''amount'', Str ''7''), (''amountETH'', Str ''0.5''),
          (''treasury'', Str ''0xC''), (''toAddress'', Str ''0xB''), (''to'', Str ''0xA'')]"]
        alias_precedence [of "[(''amountETH'', Num (Fin 0)), (''amount'', Str ''7'')]"]
  by (simp add: field_def)

text \<open>
  As stated, for fields that are present, C9 fails: an \<^verbatim>\<open>amountETH\<close> that is present
  but empty gives way to \<^verbatim>\<open>amount\<close> (alone it would give the default 0.01), and a
  \<^verbatim>\<open>to\<close> that is present but empty gives way to \<^verbatim>\<open>toAddress\<close>.
\<close>

theorem alias_precedence_counterexample:
  "ethAmount [(''amountETH'', Str ''''), (''amount'', Str ''5'')] = Inr (Fin 5)
   \<and> ethAmount [(''amountETH'', Str '''')] = Inr (Fin 0.01)
   \<and> destination [(''to'', Str ''''), (''toAddress'', Str ''0xB'')] = Str ''0xB''"
  by (simp add: ethAmount_def destination_def field_def js_or_def parseFloat_eval)

subsection \<open>Routes\<close>

lemma handle_convert:
  "req_method req = POST \<Longrightarrow> route_matches ''/convert'' (url req) \<Longrightarrow>
     handle W g req = convert W g (body req)"
  by (subst handle.simps) simp

lemma handle_rewritten:
  "req_method req = POST \<Longrightarrow> handle W g (req\<lparr>url := ''/convert''\<rparr>) = convert W g (body req)"
  by (subst handle.simps) (simp add: route_matches_def pathname_def to_lower_def)

text \<open>
  C6. A \<^verbatim>\<open>POST\<close> to any of \<^verbatim>\<open>/send-eth\<close>, \<^verbatim>\<open>/withdraw\<close>, \<^verbatim>\<open>/transfer\<close> and
  \<^verbatim>\<open>/coinbase-withdraw\<close> gives, in the same world and process state, the new state,
  the response and the calls of the same request sent to \<^verbatim>\<open>/convert\<close>, which are
  those of the transfer endpoint on the request's body.
\<close>

theorem alias_routes:
  assumes "req_method req = POST"
    and "a \<in> {''/send-eth'', ''/withdraw'', ''/transfer'', ''/coinbase-withdraw''}"
    and "route_matches a (url req)"
  shows "handle W g req = handle W g (req\<lparr>url := ''/convert''\<rparr>)
         \<and> handle W g req = convert W g (body req)"
proof -
  have "handle W g req = convert W g (body req)"
  proof (cases "route_matches ''/convert'' (url req)")
    case True
    with assms(1) show ?thesis by (rule handle_convert)
  next
    case False
    with assms show ?thesis
      by (subst handle.simps) (auto simp: handle_rewritten)
  qed
  then show ?thesis
    using assms(1) by (simp add: handle_rewritten)
qed

theorem alias_routes_witness:
  "handle (sample_world 1000000000000000000) ready
     \<lparr>req_method = POST, url = ''/withdraw'', body = [(''amount'', Str ''0.05'')]\<rparr> =
   handle (sample_world 1000000000000000000) ready
     \<lparr>req_method = POST, url = ''/convert'', body = [(''amount'', Str ''0.05'')]\<rparr>"
  using alias_routes [of "\<lparr>req_method = POST, url = ''/withdraw'', body = [(''amount'', Str ''0.05'')]\<rparr>"
      "''/withdraw''" "sample_world 1000000000000000000" ready]
  by (simp add: route_matches_def pathname_def to_lower_def)

lemma handle_status:
  "handle W g \<lparr>req_method = GET, url = ''/status'', body = B\<rparr> = status_route W g"
  by (subst handle.simps) (simp add: route_matches_def pathname_def to_lower_def is_get_def)

lemma fixed6_zero: "fixed6 0 = ''0.000000''"
  by (simp add: fixed6_def show_nat_0 pad_numeral)

lemma status_balance_unreadable: "balance_unreadable W g \<Longrightarrow> fst (status_balance W g) = Fin 0"
  by (auto simp: balance_unreadable_def status_balance_def split: option.splits sum.splits)

text \<open>
  C7. \<^verbatim>\<open>GET /status\<close> answers 200 with status \<^verbatim>\<open>online\<close> in every world and every
  process state; when the balance cannot be read (a handle is missing or the query
  fails) the balance it reports is \<^verbatim>\<open>0.000000\<close>.
\<close>

theorem status_never_fails:
  "(let r = fst (snd (handle W g \<lparr>req_method = GET, url = ''/status'', body = B\<rparr>)) in
      code r = 200
      \<and> (\<exists>w b. json r = Status ''online'' ''V2-SignBroadcast'' w b)
      \<and> (balance_unreadable W g \<longrightarrow>
           json r = Status ''online'' ''V2-SignBroadcast'' (map_option address (wallet g))
                      ''0.000000''))"
  using status_balance_unreadable [of W g]
  by (auto simp: handle_status status_route_def fixed6_zero split: prod.splits)

theorem status_never_fails_witness:
  "fst (snd (handle (sample_world 0\<lparr>getBalance := \<lambda>p a. Inl ''missing response''\<rparr>) ready
     \<lparr>req_method = GET, url = ''/status'', body = []\<rparr>)) =
   \<lparr>code = 200, json = Status ''online'' ''V2-SignBroadcast'' (Some ''0xWallet'') ''0.000000''\<rparr>"
proof -
  have "balance_unreadable (sample_world 0\<lparr>getBalance := \<lambda>p a. Inl ''missing response''\<rparr>) ready"
    by (simp add: balance_unreadable_def ready_def)
  then show ?thesis
    using status_never_fails [of "sample_world 0\<lparr>getBalance := \<lambda>p a. Inl ''missing response''\<rparr>"
        ready "[]"]
    by (cases "fst (snd (handle (sample_world 0\<lparr>getBalance := \<lambda>p a. Inl ''missing response''\<rparr>) ready
     \<lparr>req_method = GET, url = ''/status'', body = []\<rparr>))") (simp add: Let_def ready_def)
qed

text \<open>
  C8. \<^verbatim>\<open>GET /health\<close> answers 200 with the payload \<^verbatim>\<open>{status: 'healthy'}\<close> in every
  world and every process state, makes no call and leaves the state as it is.
\<close>

theorem health_constant:
  "handle W g \<lparr>req_method = GET, url = ''/health'', body = B\<rparr> =
     (g, \<lparr>code = 200, json = Health ''healthy''\<rparr>, [])"
  by (subst handle.simps)
     (simp add: route_matches_def pathname_def to_lower_def is_get_def health_route_def)

end
